theory Spec2Isabelle
  imports Main
begin

section \<open>Values shared by the two user services\<close>

text \<open>
  The repository holds two independent FastAPI applications that manage users:
  \<^verbatim>\<open>main1.py\<close> keeps a list of records with string identifiers drawn from
  \<^verbatim>\<open>uuid.uuid4()\<close>, and \<^verbatim>\<open>testing.py\<close> keeps a dictionary from integer keys to
  user dictionaries, seeded with five entries. Each application owns its store; no
  state is shared between them.
\<close>

text \<open>Exceptions are values. \<open>KeyError\<close> is what a dictionary subscript or \<^verbatim>\<open>del\<close>
  raises on a missing key.\<close>

datatype error = HTTPException (status_code: nat) (detail: string) | KeyError int

text \<open>The values the handlers return, which the framework sends as JSON. Python
  dictionaries keep the order in which their keys were written; \<open>JObj\<close> is a dictionary
  with text keys and \<open>JIntObj\<close> one with integer keys (the store of \<^verbatim>\<open>testing.py\<close>).\<close>

datatype json = JStr string | JInt int | JArr "json list" | JObj "(string \<times> json) list"
  | JIntObj "(int \<times> json) list"

text \<open>The classes \<^verbatim>\<open>User\<close> and \<^verbatim>\<open>UserCreate\<close> have the same four text fields;
  \<^verbatim>\<open>UserResponse\<close> has them and the identifier (the field \<^verbatim>\<open>id\<close>, written
  \<open>id'\<close> here).\<close>

record user =
  name :: string
  email :: string
  phone :: string
  gender :: string

record user_response = user +
  id' :: string

text \<open>The dictionary of the four fields (\<^verbatim>\<open>model_dump()\<close>, and the literal
  dictionaries of the seed).\<close>

definition model_dump :: "user \<Rightarrow> json" where
  "model_dump u =
     JObj [(''name'', JStr (name u)), (''email'', JStr (email u)),
           (''phone'', JStr (phone u)), (''gender'', JStr (gender u))]"

text \<open>Serialisation of a \<^verbatim>\<open>UserResponse\<close> through \<^verbatim>\<open>response_model\<close>.\<close>

definition user_response_json :: "user_response \<Rightarrow> json" where
  "user_response_json r =
     JObj [(''id'', JStr (id' r)), (''name'', JStr (name r)), (''email'', JStr (email r)),
           (''phone'', JStr (phone r)), (''gender'', JStr (gender r))]"


section \<open>main1.py: the list store with string identifiers\<close>

type_synonym users_db = "user_response list"

definition main1_home :: json where
  "main1_home = JObj [(''message'', JStr ''User Management API''), (''version'', JStr ''1.0.0'')]"

text \<open>\<^verbatim>\<open>create_user\<close>. The value returned by \<^verbatim>\<open>str(uuid.uuid4())\<close> is the first
  argument: the generator is outside the program, and the function does not look at the
  store before it uses the value.\<close>

definition create_user :: "string \<Rightarrow> user \<Rightarrow> users_db \<Rightarrow> user_response \<times> users_db" where
  "create_user uuid4 u users_db =
     (let user_id = uuid4;
          new_user = \<lparr>name = name u, email = email u, phone = phone u, gender = gender u,
                      id' = user_id\<rparr>
      in (new_user, users_db @ [new_user]))"

definition main1_get_all_users :: "users_db \<Rightarrow> user_response list" where
  "main1_get_all_users users_db = users_db"

text \<open>\<^verbatim>\<open>get_user_by_id\<close>: the \<^verbatim>\<open>for\<close> loop over the list, leaving at the first
  record whose identifier is the one asked for.\<close>

fun get_user_by_id :: "string \<Rightarrow> users_db \<Rightarrow> error + user_response" where
  "get_user_by_id user_id [] = Inl (HTTPException 404 ''User not found'')"
| "get_user_by_id user_id (u # rest) =
     (if id' u = user_id then Inr u else get_user_by_id user_id rest)"

definition get_users_count :: "users_db \<Rightarrow> json" where
  "get_users_count users_db = JObj [(''total_users'', JInt (int (length users_db)))]"


section \<open>testing.py: the dictionary store with integer keys\<close>

subsection \<open>Python dictionaries\<close>

text \<open>A dictionary is an association list in insertion order. A dictionary never
  holds a key twice, which is \<open>distinct (map fst d)\<close>.\<close>

type_synonym 'v dict = "(int \<times> 'v) list"

fun dict_contains :: "'v dict \<Rightarrow> int \<Rightarrow> bool" where
  "dict_contains [] k = False"
| "dict_contains ((k', v) # d) k = (if k' = k then True else dict_contains d k)"

fun dict_getitem :: "'v dict \<Rightarrow> int \<Rightarrow> error + 'v" where
  "dict_getitem [] k = Inl (KeyError k)"
| "dict_getitem ((k', v) # d) k = (if k' = k then Inr v else dict_getitem d k)"

text \<open>Assignment replaces the value in place, or adds the key at the end.\<close>

fun dict_setitem :: "'v dict \<Rightarrow> int \<Rightarrow> 'v \<Rightarrow> 'v dict" where
  "dict_setitem [] k v = [(k, v)]"
| "dict_setitem ((k', v') # d) k v =
     (if k' = k then (k, v) # d else (k', v') # dict_setitem d k v)"

fun dict_delitem :: "'v dict \<Rightarrow> int \<Rightarrow> error + 'v dict" where
  "dict_delitem [] k = Inl (KeyError k)"
| "dict_delitem ((k', v') # d) k =
     (if k' = k then Inr d
      else (case dict_delitem d k of Inl e \<Rightarrow> Inl e | Inr d' \<Rightarrow> Inr ((k', v') # d')))"

subsection \<open>The store and its handlers\<close>

type_synonym user_db = "user dict"

definition user_db :: user_db where
  "user_db =
     [(1, \<lparr>name = ''John'', email = ''john@example.com'', phone = ''1234567890'', gender = ''male''\<rparr>),
      (2, \<lparr>name = ''Jane'', email = ''jane@example.com'', phone = ''0987654321'', gender = ''female''\<rparr>),
      (3, \<lparr>name = ''Jim'', email = ''jim@example.com'', phone = ''1111111111'', gender = ''male''\<rparr>),
      (4, \<lparr>name = ''Jill'', email = ''jill@example.com'', phone = ''2222222222'', gender = ''female''\<rparr>),
      (5, \<lparr>name = ''Jack'', email = ''jack@example.com'', phone = ''3333333333'', gender = ''male''\<rparr>)]"

definition dict_json :: "user_db \<Rightarrow> json" where
  "dict_json db = JIntObj (map (\<lambda>(k, u). (k, model_dump u)) db)"

definition testing_home :: "user_db \<Rightarrow> json" where
  "testing_home db =
     JObj [(''message'', JStr ''User Update API''), (''total_users'', JInt (int (length db)))]"

definition testing_get_all_users :: "user_db \<Rightarrow> json" where
  "testing_get_all_users db = JObj [(''users'', dict_json db)]"

definition get_user :: "int \<Rightarrow> user_db \<Rightarrow> error + json" where
  "get_user user_id db =
     (if dict_contains db user_id then
        (case dict_getitem db user_id of
           Inl e \<Rightarrow> Inl e
         | Inr u \<Rightarrow> Inr (JObj [(''user_id'', JInt user_id), (''user'', model_dump u)]))
      else Inl (HTTPException 404 ''User not found''))"

text \<open>\<^verbatim>\<open>update_user\<close>: the old dictionary is copied, the new one is stored under the
  key, and \<^verbatim>\<open>new_data\<close> is read back from the store.\<close>

definition update_user :: "int \<Rightarrow> user \<Rightarrow> user_db \<Rightarrow> (error + json) \<times> user_db" where
  "update_user user_id u db =
     (if dict_contains db user_id then
        (case dict_getitem db user_id of
           Inl e \<Rightarrow> (Inl e, db)
         | Inr old_user \<Rightarrow>
             (let db' = dict_setitem db user_id u in
              (case dict_getitem db' user_id of
                 Inl e \<Rightarrow> (Inl e, db')
               | Inr new_user \<Rightarrow>
                   (Inr (JObj [(''message'', JStr ''User updated successfully''),
                               (''user_id'', JInt user_id),
                               (''old_data'', model_dump old_user),
                               (''new_data'', model_dump new_user)]), db'))))
      else (Inl (HTTPException 404 ''User not found''), db))"

definition delete_user :: "int \<Rightarrow> user_db \<Rightarrow> (error + json) \<times> user_db" where
  "delete_user user_id db =
     (if dict_contains db user_id then
        (case dict_delitem db user_id of
           Inl e \<Rightarrow> (Inl e, db)
         | Inr db' \<Rightarrow> (Inr (JObj [(''message'', JStr ''User deleted successfully'')]), db'))
      else (Inl (HTTPException 404 ''User not found''), db))"


section \<open>The HTTP layer\<close>

text \<open>
  A request is a method (the field \<open>verb\<close>), a path split at its slashes (\<^verbatim>\<open>/users/count\<close> is
  \<open>[''users'', ''count'']\<close>, \<^verbatim>\<open>/\<close> is \<open>[]\<close>) and a body that has passed the
  validation of the four text fields; handlers without a body parameter ignore it.
  Segments are not empty in the requests considered here: a path with a trailing slash
  is redirected by the router before any handler runs, and an empty segment matches no
  parameter below.
\<close>

datatype http_method = GET | POST | PUT | DELETE

record request =
  verb :: http_method
  path :: "string list"
  body :: user

text \<open>A response is a status code and its content. \<open>Unprocessable\<close> is the 422 reply
  for a path parameter that is not an integer; its content is written by the
  validation layer.\<close>

datatype response = Response (status: nat) (content: json) | Unprocessable

definition http_exception_handler :: "error \<Rightarrow> response" where
  "http_exception_handler e =
     (case e of
        HTTPException sc d \<Rightarrow> Response sc (JObj [(''detail'', JStr d)])
      | KeyError k \<Rightarrow> Response 500 (JStr ''Internal Server Error''))"

definition reply :: "error + json \<Rightarrow> response" where
  "reply r = (case r of Inl e \<Rightarrow> http_exception_handler e | Inr j \<Rightarrow> Response 200 j)"

subsection \<open>Routing\<close>

text \<open>
  A path template is a list of literal segments and parameters; a parameter written
  \<^verbatim>\<open>{user_id}\<close> takes any non-empty segment. The decorators register the routes in the
  order of the file. The router runs the first route whose template and method both match;
  when only templates match, the reply is 405; when nothing matches, 404.
\<close>

datatype segment = Lit string | Param

fun match_path :: "segment list \<Rightarrow> string list \<Rightarrow> string list option" where
  "match_path [] [] = Some []"
| "match_path (Lit l # ts) (x # xs) = (if l = x then match_path ts xs else None)"
| "match_path (Param # ts) (x # xs) =
     (if x = [] then None
      else (case match_path ts xs of None \<Rightarrow> None | Some args \<Rightarrow> Some (x # args)))"
| "match_path _ _ = None"

type_synonym 's endpoint = "string list \<Rightarrow> user \<Rightarrow> 's \<Rightarrow> response \<times> 's"

type_synonym 's route = "http_method \<times> segment list \<times> 's endpoint"

fun full_match :: "'s route list \<Rightarrow> http_method \<Rightarrow> string list \<Rightarrow> ('s endpoint \<times> string list) option" where
  "full_match [] m p = None"
| "full_match ((m', template, endpoint) # routes) m p =
     (case match_path template p of
        None \<Rightarrow> full_match routes m p
      | Some args \<Rightarrow> if m' = m then Some (endpoint, args) else full_match routes m p)"

fun partial_match :: "'s route list \<Rightarrow> string list \<Rightarrow> bool" where
  "partial_match [] p = False"
| "partial_match ((m', template, endpoint) # routes) p =
     (case match_path template p of None \<Rightarrow> partial_match routes p | Some args \<Rightarrow> True)"

definition serve :: "'s route list \<Rightarrow> request \<Rightarrow> 's \<Rightarrow> response \<times> 's" where
  "serve routes req s =
     (case full_match routes (verb req) (path req) of
        Some (endpoint, args) \<Rightarrow> endpoint args (body req) s
      | None \<Rightarrow>
          if partial_match routes (path req)
          then (http_exception_handler (HTTPException 405 ''Method Not Allowed''), s)
          else (http_exception_handler (HTTPException 404 ''Not Found''), s))"

subsection \<open>The application of main1.py\<close>

definition main1_home_endpoint :: "users_db endpoint" where
  "main1_home_endpoint args b db = (Response 200 main1_home, db)"

definition create_user_endpoint :: "string \<Rightarrow> users_db endpoint" where
  "create_user_endpoint uuid4 args b db =
     (case create_user uuid4 b db of
        (new_user, db') \<Rightarrow> (Response 200 (user_response_json new_user), db'))"

definition main1_get_all_users_endpoint :: "users_db endpoint" where
  "main1_get_all_users_endpoint args b db =
     (Response 200 (JArr (map user_response_json (main1_get_all_users db))), db)"

definition get_user_by_id_endpoint :: "users_db endpoint" where
  "get_user_by_id_endpoint args b db =
     (case args of
        [user_id] \<Rightarrow>
          (case get_user_by_id user_id db of
             Inl e \<Rightarrow> (http_exception_handler e, db)
           | Inr u \<Rightarrow> (Response 200 (user_response_json u), db))
      | _ \<Rightarrow> (Response 500 (JStr ''Internal Server Error''), db))"

definition get_users_count_endpoint :: "users_db endpoint" where
  "get_users_count_endpoint args b db = (Response 200 (get_users_count db), db)"

text \<open>The routes of \<^verbatim>\<open>main1.py\<close>, in the order of their decorators.\<close>

definition main1_routes :: "string \<Rightarrow> users_db route list" where
  "main1_routes uuid4 =
     [(GET, [], main1_home_endpoint),
      (POST, [Lit ''users''], create_user_endpoint uuid4),
      (GET, [Lit ''users''], main1_get_all_users_endpoint),
      (GET, [Lit ''users'', Param], get_user_by_id_endpoint),
      (GET, [Lit ''users'', Lit ''count''], get_users_count_endpoint)]"

definition main1_app :: "string \<Rightarrow> request \<Rightarrow> users_db \<Rightarrow> response \<times> users_db" where
  "main1_app uuid4 req db = serve (main1_routes uuid4) req db"

subsection \<open>The application of testing.py\<close>

text \<open>The path parameter \<^verbatim>\<open>user_id: int\<close> is read from its segment. \<open>path_int\<close> reads
  the plain spelling: decimal digits with an optional minus sign. Spellings beyond the
  plain one are left to the validation library and are outside this model, which answers
  them 422; the statements about a path segment are about segments that \<open>path_int\<close>
  reads.\<close>

definition digit_of :: "char \<Rightarrow> nat option" where
  "digit_of c =
     (let n = (of_char c :: nat) in if 48 \<le> n \<and> n \<le> 57 then Some (n - 48) else None)"

fun digits_value :: "nat \<Rightarrow> string \<Rightarrow> nat option" where
  "digits_value acc [] = Some acc"
| "digits_value acc (c # cs) =
     (case digit_of c of None \<Rightarrow> None | Some d \<Rightarrow> digits_value (10 * acc + d) cs)"

definition path_int :: "string \<Rightarrow> int option" where
  "path_int s =
     (case s of
        [] \<Rightarrow> None
      | c # cs \<Rightarrow>
          if c = CHR ''-''
          then (if cs = [] then None else map_option (\<lambda>n. - int n) (digits_value 0 cs))
          else map_option int (digits_value 0 s))"

definition with_user_id :: "(int \<Rightarrow> user \<Rightarrow> user_db \<Rightarrow> response \<times> user_db) \<Rightarrow> user_db endpoint" where
  "with_user_id f args b db =
     (case args of
        [seg] \<Rightarrow> (case path_int seg of None \<Rightarrow> (Unprocessable, db) | Some user_id \<Rightarrow> f user_id b db)
      | _ \<Rightarrow> (Response 500 (JStr ''Internal Server Error''), db))"

definition testing_home_endpoint :: "user_db endpoint" where
  "testing_home_endpoint args b db = (Response 200 (testing_home db), db)"

definition testing_get_all_users_endpoint :: "user_db endpoint" where
  "testing_get_all_users_endpoint args b db = (Response 200 (testing_get_all_users db), db)"

definition get_user_endpoint :: "user_db endpoint" where
  "get_user_endpoint = with_user_id (\<lambda>user_id b db. (reply (get_user user_id db), db))"

definition update_user_endpoint :: "user_db endpoint" where
  "update_user_endpoint =
     with_user_id (\<lambda>user_id b db. case update_user user_id b db of (r, db') \<Rightarrow> (reply r, db'))"

definition delete_user_endpoint :: "user_db endpoint" where
  "delete_user_endpoint =
     with_user_id (\<lambda>user_id b db. case delete_user user_id db of (r, db') \<Rightarrow> (reply r, db'))"

text \<open>The routes of \<^verbatim>\<open>testing.py\<close>, in the order of their decorators.\<close>

definition testing_routes :: "user_db route list" where
  "testing_routes =
     [(GET, [], testing_home_endpoint),
      (GET, [Lit ''users''], testing_get_all_users_endpoint),
      (GET, [Lit ''users'', Param], get_user_endpoint),
      (PUT, [Lit ''users'', Param], update_user_endpoint),
      (DELETE, [Lit ''users'', Lit ''v1'', Lit ''delete'', Param], delete_user_endpoint)]"

definition testing_app :: "request \<Rightarrow> user_db \<Rightarrow> response \<times> user_db" where
  "testing_app req db = serve testing_routes req db"

subsection \<open>Runs of the two applications\<close>





section \<open>Facts about the dictionary operations and the list scan\<close>

lemma dict_contains_keys: "dict_contains d k \<longleftrightarrow> k \<in> set (map fst d)"
  by (induction d) auto

lemma dict_getitem_present: "dict_contains d k \<Longrightarrow> \<exists>v. dict_getitem d k = Inr v"
  by (induction d) auto

lemma dict_getitem_absent: "\<not> dict_contains d k \<Longrightarrow> dict_getitem d k = Inl (KeyError k)"
  by (induction d) auto

lemma dict_getitem_setitem_same: "dict_getitem (dict_setitem d k v) k = Inr v"
  by (induction d) auto

lemma keys_setitem_present: "dict_contains d k \<Longrightarrow> map fst (dict_setitem d k v) = map fst d"
  by (induction d) auto

lemma others_setitem:
  "dict_contains d k \<Longrightarrow> filter (\<lambda>e. fst e \<noteq> k) (dict_setitem d k v) = filter (\<lambda>e. fst e \<noteq> k) d"
  by (induction d) auto

lemma dict_delitem_present: "dict_contains d k \<Longrightarrow> \<exists>d'. dict_delitem d k = Inr d'"
  by (induction d) auto

lemma others_delitem:
  "dict_delitem d k = Inr d' \<Longrightarrow> filter (\<lambda>e. fst e \<noteq> k) d' = filter (\<lambda>e. fst e \<noteq> k) d"
  by (induction d arbitrary: d') (auto split: if_splits sum.splits)

lemma length_delitem: "dict_delitem d k = Inr d' \<Longrightarrow> length d = Suc (length d')"
  by (induction d arbitrary: d') (auto split: if_splits sum.splits)

lemma keys_delitem:
  "dict_delitem d k = Inr d' \<Longrightarrow> distinct (map fst d) \<Longrightarrow> map fst d' = removeAll k (map fst d)"
proof (induction d arbitrary: d')
  case Nil
  then show ?case by simp
next
  case (Cons e d)
  obtain k' v' where e: "e = (k', v')" by (cases e)
  show ?case
  proof (cases "k' = k")
    case True
    with Cons.prems e have "d' = d" and "k \<notin> set (map fst d)" by auto
    with True e show ?thesis by simp
  next
    case False
    with Cons.prems e obtain d'' where d'': "dict_delitem d k = Inr d''" "d' = (k', v') # d''"
      by (auto split: sum.splits)
    with Cons.IH [of d''] Cons.prems False e show ?thesis by simp
  qed
qed

lemma get_user_by_id_skip:
  "k \<notin> id' ` set pre \<Longrightarrow> get_user_by_id k (pre @ rest) = get_user_by_id k rest"
  by (induction pre) auto

lemma get_user_by_id_absent:
  "k \<notin> id' ` set db \<Longrightarrow> get_user_by_id k db = Inl (HTTPException 404 ''User not found'')"
  by (induction db) auto



section \<open>Facts about routing and about runs\<close>

lemma full_match_route:
  "full_match routes m p = Some (e, args) \<Longrightarrow> \<exists>t. (m, t, e) \<in> set routes \<and> match_path t p = Some args"
  by (induction routes) (auto split: option.splits if_splits)


lemma match_users_only:
  assumes "match_path [Lit ''users''] p = Some args"
  shows "p = [''users'']"
proof (cases p)
  case Nil
  with assms show ?thesis by simp
next
  case (Cons x xs)
  with assms show ?thesis by (cases xs) (auto split: if_splits)
qed

lemma main1_app_store:
  "snd (main1_app uuid4 req db) =
     (if verb req = POST \<and> path req = [''users'']
      then db @ [fst (create_user uuid4 (body req) db)] else db)"
proof (cases "verb req = POST \<and> path req = [''users'']")
  case True
  then show ?thesis
    by (simp add: main1_app_def serve_def main1_routes_def create_user_endpoint_def
        create_user_def Let_def)
next
  case False
  have "snd (serve (main1_routes uuid4) req db) = db"
  proof (cases "full_match (main1_routes uuid4) (verb req) (path req)")
    case None
    then show ?thesis by (simp add: serve_def)
  next
    case (Some hit)
    obtain e args where hit: "hit = (e, args)" by (cases hit)
    with Some obtain t where t: "(verb req, t, e) \<in> set (main1_routes uuid4)"
      "match_path t (path req) = Some args"
      using full_match_route by blast
    from t False have "e \<noteq> create_user_endpoint uuid4 \<or> verb req \<noteq> POST"
      by (auto simp: main1_routes_def dest: match_users_only)
    with t have "snd (e args (body req) db) = db"
      by (auto simp: main1_routes_def main1_home_endpoint_def main1_get_all_users_endpoint_def
          get_user_by_id_endpoint_def get_users_count_endpoint_def
          split: list.splits sum.splits)
    with Some hit show ?thesis by (simp add: serve_def)
  qed
  with False show ?thesis by (simp add: main1_app_def)
qed








lemma path_int_nonempty: "path_int seg = Some k \<Longrightarrow> seg \<noteq> []"
  by (auto simp: path_int_def)

lemma delete_user_present:
  assumes "dict_contains db k" and "distinct (map fst db)"
  shows "\<exists>db'. delete_user k db = (Inr (JObj [(''message'', JStr ''User deleted successfully'')]), db')
               \<and> \<not> dict_contains db' k"
proof -
  from assms(1) obtain db' where del: "dict_delitem db k = Inr db'"
    using dict_delitem_present by blast
  from del assms(2) have "map fst db' = removeAll k (map fst db)" by (rule keys_delitem)
  then have "\<not> dict_contains db' k" by (simp add: dict_contains_keys)
  with assms(1) del show ?thesis by (simp add: delete_user_def)
qed


section \<open>The claims of the specification\<close>

text \<open>
  C1. A request \<^verbatim>\<open>GET /users/count\<close> should reach \<^verbatim>\<open>get_users_count\<close> and return
  \<^verbatim>\<open>{"total_users": n}\<close>. In \<^verbatim>\<open>main1.py\<close> the route \<^verbatim>\<open>/users/{user_id}\<close> is registered
  before \<^verbatim>\<open>/users/count\<close>, so the request runs \<^verbatim>\<open>get_user_by_id\<close> with the identifier
  \<^verbatim>\<open>count\<close>: for every store the reply is what that handler gives, never the count, and on
  the empty store it is the 404 reply \<^verbatim>\<open>{"detail": "User not found"}\<close>.
\<close>

theorem count_request_runs_get_user_by_id:
  "main1_app uuid4 \<lparr>verb = GET, path = [''users'', ''count''], body = b\<rparr> db =
     (case get_user_by_id ''count'' db of
        Inl e \<Rightarrow> (http_exception_handler e, db)
      | Inr u \<Rightarrow> (Response 200 (user_response_json u), db))
   \<and> fst (main1_app uuid4 \<lparr>verb = GET, path = [''users'', ''count''], body = b\<rparr> db)
       \<noteq> Response 200 (get_users_count db)
   \<and> main1_app uuid4 \<lparr>verb = GET, path = [''users'', ''count''], body = b\<rparr> [] =
       (Response 404 (JObj [(''detail'', JStr ''User not found'')]), [])"
  by (simp add: main1_app_def serve_def main1_routes_def get_user_by_id_endpoint_def
      http_exception_handler_def get_users_count_def user_response_json_def
      split: sum.splits error.splits)




text \<open>
  C3. For every identifier present in the store of \<^verbatim>\<open>testing.py\<close> and every body,
  \<^verbatim>\<open>update_user\<close> returns the message, the identifier, \<^verbatim>\<open>old_data\<close> equal to the record
  held before and \<^verbatim>\<open>new_data\<close> equal to the fields of the body; the record stored under
  the identifier afterwards is the body, whole, and the keys of the store are the same.
\<close>

theorem update_replaces_record:
  assumes "dict_contains db user_id"
  shows "\<exists>old_user.
           dict_getitem db user_id = Inr old_user
           \<and> update_user user_id u db =
               (Inr (JObj [(''message'', JStr ''User updated successfully''),
                           (''user_id'', JInt user_id),
                           (''old_data'', model_dump old_user),
                           (''new_data'', model_dump u)]),
                dict_setitem db user_id u)
           \<and> dict_getitem (dict_setitem db user_id u) user_id = Inr u
           \<and> map fst (dict_setitem db user_id u) = map fst db"
proof -
  from assms obtain old_user where "dict_getitem db user_id = Inr old_user"
    using dict_getitem_present by blast
  with assms show ?thesis
    by (simp add: update_user_def dict_getitem_setitem_same keys_setitem_present)
qed

text \<open>
  C3, at a concrete input: the seed store, identifier 2.
\<close>

theorem update_replaces_record_witness:
  "dict_contains user_db 2
   \<and> update_user 2 \<lparr>name = ''Ann'', email = ''ann@example.com'', phone = ''5550100'', gender = ''female''\<rparr> user_db
     = (Inr (JObj [(''message'', JStr ''User updated successfully''),
                   (''user_id'', JInt 2),
                   (''old_data'', JObj [(''name'', JStr ''Jane''), (''email'', JStr ''jane@example.com''),
                                        (''phone'', JStr ''0987654321''), (''gender'', JStr ''female'')]),
                   (''new_data'', JObj [(''name'', JStr ''Ann''), (''email'', JStr ''ann@example.com''),
                                        (''phone'', JStr ''5550100''), (''gender'', JStr ''female'')])]),
        dict_setitem user_db 2 \<lparr>name = ''Ann'', email = ''ann@example.com'', phone = ''5550100'', gender = ''female''\<rparr>)"
  using update_replaces_record [of user_db 2
      "\<lparr>name = ''Ann'', email = ''ann@example.com'', phone = ''5550100'', gender = ''female''\<rparr>"]
  by (simp add: user_db_def model_dump_def)

text \<open>
  C4. For an identifier absent from the store, \<^verbatim>\<open>get_user\<close>, \<^verbatim>\<open>update_user\<close> and
  \<^verbatim>\<open>delete_user\<close> of \<^verbatim>\<open>testing.py\<close> and \<^verbatim>\<open>get_user_by_id\<close> of \<^verbatim>\<open>main1.py\<close> each raise
  \<^verbatim>\<open>HTTPException(404, "User not found")\<close>, which is sent as status 404 with the content
  \<^verbatim>\<open>{"detail": "User not found"}\<close>; the two handlers that can write return the store as it
  was (the two readers have no store to return).
\<close>

theorem not_found_leaves_store:
  assumes "\<not> dict_contains db user_id" and "sid \<notin> id' ` set users_db"
  shows "get_user user_id db = Inl (HTTPException 404 ''User not found'')
         \<and> update_user user_id u db = (Inl (HTTPException 404 ''User not found''), db)
         \<and> delete_user user_id db = (Inl (HTTPException 404 ''User not found''), db)
         \<and> get_user_by_id sid users_db = Inl (HTTPException 404 ''User not found'')
         \<and> http_exception_handler (HTTPException 404 ''User not found'')
             = Response 404 (JObj [(''detail'', JStr ''User not found'')])"
  using assms
  by (simp add: get_user_def update_user_def delete_user_def get_user_by_id_absent
      http_exception_handler_def)

text \<open>
  C4, at a concrete input: identifier 9 on the seed store, and an identifier on the empty
  list.
\<close>

theorem not_found_leaves_store_witness:
  "\<not> dict_contains user_db 9
   \<and> ''7d444840-9dc0-41d1-b245-5ffdce74fad2'' \<notin> id' ` set []
   \<and> get_user 9 user_db = Inl (HTTPException 404 ''User not found'')
   \<and> update_user 9 \<lparr>name = ''Ann'', email = ''ann@example.com'', phone = ''5550100'', gender = ''female''\<rparr> user_db
       = (Inl (HTTPException 404 ''User not found''), user_db)
   \<and> delete_user 9 user_db = (Inl (HTTPException 404 ''User not found''), user_db)
   \<and> get_user_by_id ''7d444840-9dc0-41d1-b245-5ffdce74fad2'' []
       = Inl (HTTPException 404 ''User not found'')"
  using not_found_leaves_store [of user_db 9 "''7d444840-9dc0-41d1-b245-5ffdce74fad2''" "[]"
      "\<lparr>name = ''Ann'', email = ''ann@example.com'', phone = ''5550100'', gender = ''female''\<rparr>"]
  by (simp add: user_db_def)

text \<open>
  C5. In every store state the count equals the length of the listing: in \<^verbatim>\<open>main1.py\<close>
  \<^verbatim>\<open>get_users_count\<close> against \<^verbatim>\<open>get_all_users\<close>, in \<^verbatim>\<open>testing.py\<close> the
  \<^verbatim>\<open>total_users\<close> of \<^verbatim>\<open>home\<close> against the entries of \<^verbatim>\<open>get_all_users\<close>. It holds in every
  state, so also in the state after \<^verbatim>\<open>create_user\<close>, \<^verbatim>\<open>update_user\<close> and
  \<^verbatim>\<open>delete_user\<close>, whatever their arguments.
\<close>

theorem count_equals_length_of_list:
  "get_users_count users_db
     = JObj [(''total_users'', JInt (int (length (main1_get_all_users users_db))))]
   \<and> get_users_count (snd (create_user uuid4 u users_db))
     = JObj [(''total_users'',
              JInt (int (length (main1_get_all_users (snd (create_user uuid4 u users_db))))))]
   \<and> (\<exists>entries. testing_get_all_users db = JObj [(''users'', JIntObj entries)]
         \<and> testing_home db
           = JObj [(''message'', JStr ''User Update API''),
                   (''total_users'', JInt (int (length entries)))])
   \<and> (\<exists>entries. testing_get_all_users (snd (update_user user_id u db))
           = JObj [(''users'', JIntObj entries)]
         \<and> testing_home (snd (update_user user_id u db))
           = JObj [(''message'', JStr ''User Update API''),
                   (''total_users'', JInt (int (length entries)))])
   \<and> (\<exists>entries. testing_get_all_users (snd (delete_user user_id db))
           = JObj [(''users'', JIntObj entries)]
         \<and> testing_home (snd (delete_user user_id db))
           = JObj [(''message'', JStr ''User Update API''),
                   (''total_users'', JInt (int (length entries)))])"
  by (simp add: get_users_count_def main1_get_all_users_def testing_get_all_users_def
      testing_home_def dict_json_def)

text \<open>
  C6 as stated fails: \<^verbatim>\<open>testing.py\<close> registers the deletion under
  \<^verbatim>\<open>/users/v1/delete/{user_id}\<close>. On the seed store, which holds identifier 1, the request
  \<^verbatim>\<open>DELETE /users/1\<close> matches only the templates of the \<^verbatim>\<open>GET\<close> and \<^verbatim>\<open>PUT\<close> routes: the
  reply is 405, the store is unchanged and \<^verbatim>\<open>GET /users/1\<close> still returns John.
\<close>

theorem delete_users_id_counterexample:
  "dict_contains user_db 1
   \<and> testing_app \<lparr>verb = DELETE, path = [''users'', ''1''],
         body = \<lparr>name = ''Ann'', email = ''ann@example.com'', phone = ''5550100'', gender = ''female''\<rparr>\<rparr>
       user_db
     = (Response 405 (JObj [(''detail'', JStr ''Method Not Allowed'')]), user_db)
   \<and> fst (testing_app \<lparr>verb = GET, path = [''users'', ''1''],
         body = \<lparr>name = ''Ann'', email = ''ann@example.com'', phone = ''5550100'', gender = ''female''\<rparr>\<rparr>
       user_db)
     = Response 200 (JObj [(''user_id'', JInt 1),
         (''user'', JObj [(''name'', JStr ''John''), (''email'', JStr ''john@example.com''),
                          (''phone'', JStr ''1234567890''), (''gender'', JStr ''male'')])])"
  by (simp add: testing_app_def serve_def testing_routes_def user_db_def
      http_exception_handler_def get_user_endpoint_def with_user_id_def path_int_def
      digit_of_def get_user_def reply_def model_dump_def)

text \<open>
  C6, amended. For every identifier present in the store (a dictionary: its keys are
  distinct), written as the path segment \<open>seg\<close>, the request \<^verbatim>\<open>DELETE /users/v1/delete/{id}\<close> removes the record and returns
  \<^verbatim>\<open>{"message": "User deleted successfully"}\<close>, and \<^verbatim>\<open>GET /users/{id}\<close> on the resulting
  store returns 404 with the content \<^verbatim>\<open>{"detail": "User not found"}\<close>.
\<close>

theorem delete_route_removes_record:
  assumes "dict_contains db user_id" and "distinct (map fst db)" and "path_int seg = Some user_id"
  shows "case testing_app \<lparr>verb = DELETE, path = [''users'', ''v1'', ''delete'', seg], body = b\<rparr> db of
           (r, db') \<Rightarrow>
             r = Response 200 (JObj [(''message'', JStr ''User deleted successfully'')])
             \<and> \<not> dict_contains db' user_id
             \<and> testing_app \<lparr>verb = GET, path = [''users'', seg], body = b'\<rparr> db'
               = (Response 404 (JObj [(''detail'', JStr ''User not found'')]), db')"
proof -
  from assms(1,2) obtain db' where
    del: "delete_user user_id db = (Inr (JObj [(''message'', JStr ''User deleted successfully'')]), db')"
    and gone: "\<not> dict_contains db' user_id"
    using delete_user_present by blast
  from assms(3) have seg: "seg \<noteq> []" by (rule path_int_nonempty)
  have "testing_app \<lparr>verb = DELETE, path = [''users'', ''v1'', ''delete'', seg], body = b\<rparr> db
          = (Response 200 (JObj [(''message'', JStr ''User deleted successfully'')]), db')"
    using seg assms(3) del
    by (simp add: testing_app_def serve_def testing_routes_def delete_user_endpoint_def
        with_user_id_def reply_def)
  moreover have "testing_app \<lparr>verb = GET, path = [''users'', seg], body = b'\<rparr> db'
          = (Response 404 (JObj [(''detail'', JStr ''User not found'')]), db')"
    using seg assms(3) gone
    by (simp add: testing_app_def serve_def testing_routes_def get_user_endpoint_def
        with_user_id_def reply_def get_user_def http_exception_handler_def)
  ultimately show ?thesis using gone by simp
qed

text \<open>
  C6 amended, at a concrete input: identifier 1 on the seed store.
\<close>

theorem delete_route_removes_record_witness:
  "dict_contains user_db 1 \<and> distinct (map fst user_db) \<and> path_int ''1'' = Some 1
   \<and> fst (testing_app \<lparr>verb = DELETE, path = [''users'', ''v1'', ''delete'', ''1''],
         body = \<lparr>name = ''Ann'', email = ''ann@example.com'', phone = ''5550100'', gender = ''female''\<rparr>\<rparr>
       user_db)
     = Response 200 (JObj [(''message'', JStr ''User deleted successfully'')])"
  using delete_route_removes_record [of user_db 1 "''1''"
      "\<lparr>name = ''Ann'', email = ''ann@example.com'', phone = ''5550100'', gender = ''female''\<rparr>"]
  by (simp add: user_db_def path_int_def digit_of_def split_beta)




text \<open>
  C8 as stated fails: no application has both Create and Update. In \<^verbatim>\<open>main1.py\<close>, after
  \<^verbatim>\<open>POST /users\<close> with Ann's fields, \<^verbatim>\<open>PUT /users/{id}\<close> with Bob's fields is answered 405
  (only \<^verbatim>\<open>GET\<close> is registered on that template) and \<^verbatim>\<open>GET /users/{id}\<close> still returns
  Ann's fields. In \<^verbatim>\<open>testing.py\<close>, \<^verbatim>\<open>POST /users\<close> is answered 405: there is no Create.
\<close>

theorem create_update_get_counterexample:
  "(case main1_app ''7d444840-9dc0-41d1-b245-5ffdce74fad2''
          \<lparr>verb = POST, path = [''users''],
           body = \<lparr>name = ''Ann'', email = ''ann@example.com'', phone = ''5550100'', gender = ''female''\<rparr>\<rparr> [] of
      (r1, db1) \<Rightarrow>
        r1 = Response 200 (JObj [(''id'', JStr ''7d444840-9dc0-41d1-b245-5ffdce74fad2''),
               (''name'', JStr ''Ann''), (''email'', JStr ''ann@example.com''),
               (''phone'', JStr ''5550100''), (''gender'', JStr ''female'')])
        \<and> (case main1_app ''16fd2706-8baf-433b-82eb-8c7fada847da''
                  \<lparr>verb = PUT, path = [''users'', ''7d444840-9dc0-41d1-b245-5ffdce74fad2''],
                   body = \<lparr>name = ''Bob'', email = ''bob@example.com'', phone = ''5550101'', gender = ''male''\<rparr>\<rparr> db1 of
              (r2, db2) \<Rightarrow>
                r2 = Response 405 (JObj [(''detail'', JStr ''Method Not Allowed'')])
                \<and> fst (main1_app ''16fd2706-8baf-433b-82eb-8c7fada847da''
                      \<lparr>verb = GET, path = [''users'', ''7d444840-9dc0-41d1-b245-5ffdce74fad2''],
                       body = \<lparr>name = ''Bob'', email = ''bob@example.com'', phone = ''5550101'', gender = ''male''\<rparr>\<rparr> db2)
                  = Response 200 (JObj [(''id'', JStr ''7d444840-9dc0-41d1-b245-5ffdce74fad2''),
                      (''name'', JStr ''Ann''), (''email'', JStr ''ann@example.com''),
                      (''phone'', JStr ''5550100''), (''gender'', JStr ''female'')])))
   \<and> testing_app \<lparr>verb = POST, path = [''users''],
         body = \<lparr>name = ''Ann'', email = ''ann@example.com'', phone = ''5550100'', gender = ''female''\<rparr>\<rparr>
       user_db
     = (Response 405 (JObj [(''detail'', JStr ''Method Not Allowed'')]), user_db)"
  by (simp add: main1_app_def testing_app_def serve_def main1_routes_def testing_routes_def
      create_user_endpoint_def create_user_def Let_def get_user_by_id_endpoint_def
      http_exception_handler_def user_response_json_def)

text \<open>
  C8, amended. In \<^verbatim>\<open>testing.py\<close>, for every store and every identifier present in it,
  whatever fields its record carries, \<^verbatim>\<open>update_user\<close> with new fields followed by
  \<^verbatim>\<open>get_user\<close> yields the new fields. In \<^verbatim>\<open>main1.py\<close>, where Create is, a \<^verbatim>\<open>PUT\<close>
  request on any path leaves the store as it was.
\<close>

theorem update_then_get:
  assumes "dict_contains db user_id"
  shows "get_user user_id (snd (update_user user_id fields2 db))
           = Inr (JObj [(''user_id'', JInt user_id), (''user'', model_dump fields2)])
         \<and> snd (main1_app uuid4 \<lparr>verb = PUT, path = p, body = fields2\<rparr> users_db) = users_db"
proof -
  from assms obtain old_user where "dict_getitem db user_id = Inr old_user"
    using dict_getitem_present by blast
  with assms have "snd (update_user user_id fields2 db) = dict_setitem db user_id fields2"
    by (simp add: update_user_def dict_getitem_setitem_same)
  moreover have "dict_contains (dict_setitem db user_id fields2) user_id"
    using assms by (simp add: dict_contains_keys keys_setitem_present)
  ultimately show ?thesis
    by (simp add: get_user_def dict_getitem_setitem_same main1_app_store)
qed

text \<open>
  C8 amended, at a concrete input: identifier 5 on the seed store.
\<close>

theorem update_then_get_witness:
  "dict_contains user_db 5
   \<and> get_user 5 (snd (update_user 5
        \<lparr>name = ''Bob'', email = ''bob@example.com'', phone = ''5550101'', gender = ''male''\<rparr> user_db))
     = Inr (JObj [(''user_id'', JInt 5),
         (''user'', JObj [(''name'', JStr ''Bob''), (''email'', JStr ''bob@example.com''),
                          (''phone'', JStr ''5550101''), (''gender'', JStr ''male'')])])"
  using update_then_get [of user_db 5
      "\<lparr>name = ''Bob'', email = ''bob@example.com'', phone = ''5550101'', gender = ''male''\<rparr>"]
  by (simp add: user_db_def model_dump_def)

text \<open>
  C9. For an identifier present in the store, \<^verbatim>\<open>update_user\<close> and \<^verbatim>\<open>delete_user\<close> leave
  the entries under every other identifier as they were, in the same order; the update
  keeps the keys of the store, and the deletion removes exactly one entry.
\<close>

theorem update_delete_frame:
  assumes "dict_contains db user_id"
  shows "filter (\<lambda>e. fst e \<noteq> user_id) (snd (update_user user_id u db))
           = filter (\<lambda>e. fst e \<noteq> user_id) db
         \<and> map fst (snd (update_user user_id u db)) = map fst db
         \<and> filter (\<lambda>e. fst e \<noteq> user_id) (snd (delete_user user_id db))
           = filter (\<lambda>e. fst e \<noteq> user_id) db
         \<and> length db = Suc (length (snd (delete_user user_id db)))"
proof -
  from assms obtain old_user where old: "dict_getitem db user_id = Inr old_user"
    using dict_getitem_present by blast
  from assms obtain db' where del: "dict_delitem db user_id = Inr db'"
    using dict_delitem_present by blast
  have upd: "snd (update_user user_id u db) = dict_setitem db user_id u"
    using assms old by (simp add: update_user_def dict_getitem_setitem_same)
  have dele: "snd (delete_user user_id db) = db'"
    using assms del by (simp add: delete_user_def)
  show ?thesis
    using assms del
    by (simp add: upd dele others_setitem keys_setitem_present others_delitem length_delitem)
qed

text \<open>
  C9, at a concrete input: identifier 3 on the seed store.
\<close>

theorem update_delete_frame_witness:
  "dict_contains user_db 3
   \<and> filter (\<lambda>e. fst e \<noteq> 3) (snd (delete_user 3 user_db)) = filter (\<lambda>e. fst e \<noteq> 3) user_db
   \<and> length (snd (delete_user 3 user_db)) = 4
   \<and> map fst (snd (update_user 3 \<lparr>name = ''Ann'', email = ''ann@example.com'', phone = ''5550100'', gender = ''female''\<rparr> user_db))
       = [1, 2, 3, 4, 5]"
  using update_delete_frame [of user_db 3
      "\<lparr>name = ''Ann'', email = ''ann@example.com'', phone = ''5550100'', gender = ''female''\<rparr>"]
  by (simp add: user_db_def)

text \<open>
  C10. \<^verbatim>\<open>get_user_by_id\<close> returns the first record, in list order, whose identifier is
  the one asked for, also when a later record carries the same identifier; list order is
  creation order, since \<^verbatim>\<open>create_user\<close> appends.
\<close>

theorem get_by_id_first_match:
  assumes "id' r = user_id" and "user_id \<notin> id' ` set earlier"
  shows "get_user_by_id user_id (earlier @ r # later) = Inr r
         \<and> snd (create_user uuid4 u users_db) = users_db @ [fst (create_user uuid4 u users_db)]"
  using assms by (simp add: get_user_by_id_skip create_user_def Let_def)

text \<open>
  C10, at a concrete input: two records under one identifier; the earlier one is
  returned.
\<close>

theorem get_by_id_first_match_witness:
  "id' \<lparr>name = ''Ann'', email = ''ann@example.com'', phone = ''5550100'', gender = ''female'',
        id' = ''7d444840-9dc0-41d1-b245-5ffdce74fad2''\<rparr> = ''7d444840-9dc0-41d1-b245-5ffdce74fad2''
   \<and> ''7d444840-9dc0-41d1-b245-5ffdce74fad2'' \<notin> id' ` set []
   \<and> get_user_by_id ''7d444840-9dc0-41d1-b245-5ffdce74fad2''
        [\<lparr>name = ''Ann'', email = ''ann@example.com'', phone = ''5550100'', gender = ''female'',
          id' = ''7d444840-9dc0-41d1-b245-5ffdce74fad2''\<rparr>,
         \<lparr>name = ''Bob'', email = ''bob@example.com'', phone = ''5550101'', gender = ''male'',
          id' = ''7d444840-9dc0-41d1-b245-5ffdce74fad2''\<rparr>]
      = Inr \<lparr>name = ''Ann'', email = ''ann@example.com'', phone = ''5550100'', gender = ''female'',
             id' = ''7d444840-9dc0-41d1-b245-5ffdce74fad2''\<rparr>"
  using get_by_id_first_match [of
      "\<lparr>name = ''Ann'', email = ''ann@example.com'', phone = ''5550100'', gender = ''female'',
        id' = ''7d444840-9dc0-41d1-b245-5ffdce74fad2''\<rparr>"
      "''7d444840-9dc0-41d1-b245-5ffdce74fad2''" "[]"
      "[\<lparr>name = ''Bob'', email = ''bob@example.com'', phone = ''5550101'', gender = ''male'',
         id' = ''7d444840-9dc0-41d1-b245-5ffdce74fad2''\<rparr>]"]
  by simp

end
